theory Spec2Isabelle
  imports Complex_Main
begin

section \<open>JavaScript numbers\<close>

text \<open>
  The icon code computes with JavaScript numbers.  A number is modelled as an exact
  rational, or one of the special values of IEEE 754 that the code can produce and test:
  the negative zero, the two infinities and NaN.  \<open>Fin 0\<close> is the positive zero.
  Rounding to 64-bit precision is not part of the model: finite results are exact.
\<close>

datatype jsnum = Fin rat | NegZero | PosInf | NegInf | NaN

text \<open>The sign bit of a number other than NaN.\<close>

fun js_sign :: "jsnum \<Rightarrow> bool" where
  "js_sign (Fin q) = (q < 0)"
| "js_sign NegZero = True"
| "js_sign PosInf = False"
| "js_sign NegInf = True"
| "js_sign NaN = False"

fun is_zero :: "jsnum \<Rightarrow> bool" where
  "is_zero (Fin q) = (q = 0)"
| "is_zero NegZero = True"
| "is_zero _ = False"

fun is_inf :: "jsnum \<Rightarrow> bool" where
  "is_inf PosInf = True"
| "is_inf NegInf = True"
| "is_inf _ = False"

text \<open>The rational value of a finite number (both zeros are 0).\<close>

fun js_val :: "jsnum \<Rightarrow> rat" where
  "js_val (Fin q) = q"
| "js_val _ = 0"

definition mk_zero :: "bool \<Rightarrow> jsnum" where
  "mk_zero neg = (if neg then NegZero else Fin 0)"

definition mk_inf :: "bool \<Rightarrow> jsnum" where
  "mk_inf neg = (if neg then NegInf else PosInf)"

text \<open>A finite value with a sign: a zero keeps the sign it is given.\<close>

definition mk_fin :: "bool \<Rightarrow> rat \<Rightarrow> jsnum" where
  "mk_fin neg q = (if q = 0 then mk_zero neg else Fin (if neg then - q else q))"

text \<open>\<open>ToBoolean\<close> of a number: the zeros and NaN are falsy.\<close>

definition js_truthy :: "jsnum \<Rightarrow> bool" where
  "js_truthy n = (\<not> is_zero n \<and> n \<noteq> NaN)"

text \<open>Unary minus.\<close>

fun js_neg :: "jsnum \<Rightarrow> jsnum" where
  "js_neg (Fin q) = (if q = 0 then NegZero else Fin (- q))"
| "js_neg NegZero = Fin 0"
| "js_neg PosInf = NegInf"
| "js_neg NegInf = PosInf"
| "js_neg NaN = NaN"

text \<open>The operator \<open>+\<close> on numbers.\<close>

fun js_add :: "jsnum \<Rightarrow> jsnum \<Rightarrow> jsnum" where
  "js_add NaN _ = NaN"
| "js_add _ NaN = NaN"
| "js_add PosInf NegInf = NaN"
| "js_add NegInf PosInf = NaN"
| "js_add PosInf _ = PosInf"
| "js_add _ PosInf = PosInf"
| "js_add NegInf _ = NegInf"
| "js_add _ NegInf = NegInf"
| "js_add NegZero b = b"
| "js_add a NegZero = a"
| "js_add (Fin a) (Fin b) = Fin (a + b)"

text \<open>The operator \<open>-\<close>: \<open>a - b\<close> is \<open>a + (-b)\<close>.\<close>

definition js_sub :: "jsnum \<Rightarrow> jsnum \<Rightarrow> jsnum" where
  "js_sub a b = js_add a (js_neg b)"

text \<open>The operator \<open>*\<close>.\<close>

definition js_mul :: "jsnum \<Rightarrow> jsnum \<Rightarrow> jsnum" where
  "js_mul a b =
     (if a = NaN \<or> b = NaN then NaN
      else if is_inf a \<and> is_zero b \<or> is_zero a \<and> is_inf b then NaN
      else if is_inf a \<or> is_inf b then mk_inf (js_sign a \<noteq> js_sign b)
      else if is_zero a \<or> is_zero b then mk_zero (js_sign a \<noteq> js_sign b)
      else Fin (js_val a * js_val b))"

text \<open>
  The operator \<open>/\<close>.  Division by a zero does not raise: it gives an infinity, or NaN
  for \<open>0 / 0\<close>.
\<close>

definition js_div :: "jsnum \<Rightarrow> jsnum \<Rightarrow> jsnum" where
  "js_div a b =
     (if a = NaN \<or> b = NaN then NaN
      else if is_inf a \<and> is_inf b \<or> is_zero a \<and> is_zero b then NaN
      else if is_inf a \<or> is_zero b then mk_inf (js_sign a \<noteq> js_sign b)
      else if is_inf b \<or> is_zero a then mk_zero (js_sign a \<noteq> js_sign b)
      else Fin (js_val a / js_val b))"

text \<open>The comparison \<open>a < b\<close>: false when an operand is NaN; the two zeros are equal.\<close>

fun js_lt :: "jsnum \<Rightarrow> jsnum \<Rightarrow> bool" where
  "js_lt NaN _ = False"
| "js_lt _ NaN = False"
| "js_lt PosInf _ = False"
| "js_lt _ PosInf = True"
| "js_lt _ NegInf = False"
| "js_lt NegInf _ = True"
| "js_lt a b = (js_val a < js_val b)"

definition js_gt :: "jsnum \<Rightarrow> jsnum \<Rightarrow> bool" where
  "js_gt a b = js_lt b a"


text \<open>
  \<open>Math.max\<close> of two numbers: NaN when an operand is NaN, and the positive zero is
  larger than the negative zero.
\<close>

definition Math_max :: "jsnum \<Rightarrow> jsnum \<Rightarrow> jsnum" where
  "Math_max a b =
     (if a = NaN \<or> b = NaN then NaN
      else if js_lt a b then b
      else if js_lt b a then a
      else if js_sign a then b else a)"


section \<open>Strings and their conversion to numbers\<close>

text \<open>
  A string is a list of characters with codes 0 to 255.  The white space of \<open>trim\<close>, of
  the class \<open>\s\<close> and of the numeric conversions is, in that range, the tab, the line
  feed, the vertical tab, the form feed, the carriage return, the space and the no-break
  space.
\<close>

definition is_ws :: "char \<Rightarrow> bool" where
  "is_ws c = (c \<in> set [CHR 0x09, CHR 0x0A, CHR 0x0B, CHR 0x0C, CHR 0x0D, CHR 0x20, CHR 0xA0])"

definition trimStart :: "string \<Rightarrow> string" where
  "trimStart s = dropWhile is_ws s"

definition trim :: "string \<Rightarrow> string" where
  "trim s = rev (dropWhile is_ws (rev (dropWhile is_ws s)))"

definition is_digit :: "char \<Rightarrow> bool" where
  "is_digit c = (c \<in> set ''0123456789'')"

text \<open>The value of a digit in a base up to 16; \<open>None\<close> when the character is no digit.\<close>

definition hex_val :: "char \<Rightarrow> nat option" where
  "hex_val c = map_of (zip ''0123456789abcdef'' [0 ..< 16] @ zip ''ABCDEF'' [10 ..< 16]) c"

definition digit_in :: "nat \<Rightarrow> char \<Rightarrow> bool" where
  "digit_in base c = (case hex_val c of None \<Rightarrow> False | Some v \<Rightarrow> v < base)"

text \<open>The value of a string of digits in a base, most significant digit first.\<close>

definition digits_val :: "nat \<Rightarrow> string \<Rightarrow> nat" where
  "digits_val base ds = foldl (\<lambda>a c. base * a + the (hex_val c)) 0 ds"

text \<open>
  An optional exponent part \<open>e\<close> or \<open>E\<close>, an optional sign and at least one digit,
  applied to the mantissa \<open>m\<close>.  An incomplete exponent is not consumed.
\<close>

definition exponent_part :: "rat \<Rightarrow> string \<Rightarrow> rat \<times> string" where
  "exponent_part m r =
     (case r of
        [] \<Rightarrow> (m, r)
      | c # r1 \<Rightarrow>
          if c = CHR ''e'' \<or> c = CHR ''E'' then
            (let neg = (r1 \<noteq> [] \<and> hd r1 = CHR ''-'');
                 r2 = (if r1 \<noteq> [] \<and> (hd r1 = CHR ''-'' \<or> hd r1 = CHR ''+'') then tl r1 else r1);
                 ds = takeWhile is_digit r2
             in if ds = [] then (m, r)
                else (if neg then m / 10 ^ digits_val 10 ds else m * 10 ^ digits_val 10 ds,
                      dropWhile is_digit r2))
          else (m, r))"

text \<open>
  The longest prefix of a string that is an unsigned decimal literal (digits, an optional
  fraction, an optional exponent; at least one digit before the exponent), with its value
  and the rest of the string.
\<close>

definition unsigned_decimal :: "string \<Rightarrow> (rat \<times> string) option" where
  "unsigned_decimal s =
     (let ip = takeWhile is_digit s; r1 = dropWhile is_digit s
      in if r1 \<noteq> [] \<and> hd r1 = CHR ''.'' then
           (let fp = takeWhile is_digit (tl r1); r2 = dropWhile is_digit (tl r1)
            in if ip = [] \<and> fp = [] then
                 None
               else
                 Some (exponent_part
                   (of_nat (digits_val 10 ip) + of_nat (digits_val 10 fp) / 10 ^ length fp) r2))
         else if ip = [] then None
         else Some (exponent_part (of_nat (digits_val 10 ip)) r1))"

text \<open>A string without its optional sign, and whether the sign was a minus.\<close>

definition strip_sign :: "string \<Rightarrow> bool \<times> string" where
  "strip_sign s =
     (case s of
        [] \<Rightarrow> (False, s)
      | c # r \<Rightarrow> if c = CHR ''-'' then (True, r) else if c = CHR ''+'' then (False, r) else (False, s))"

text \<open>
  A literal \<open>0x\<close>, \<open>0o\<close> or \<open>0b\<close> (in either case) followed by digits of the base only.
\<close>

definition non_decimal :: "string \<Rightarrow> nat option" where
  "non_decimal s =
     (case s of
        c0 # c1 # ds \<Rightarrow>
          (let base = (if c1 = CHR ''x'' \<or> c1 = CHR ''X'' then 16
                       else if c1 = CHR ''o'' \<or> c1 = CHR ''O'' then 8
                       else if c1 = CHR ''b'' \<or> c1 = CHR ''B'' then 2 else 0)
           in if c0 = CHR ''0'' \<and> base \<noteq> 0 \<and> ds \<noteq> [] \<and> list_all (digit_in base) ds
              then Some (digits_val base ds) else None)
      | _ \<Rightarrow> None)"

text \<open>
  \<open>Number(s)\<close> for a string: white space is trimmed at both ends, the empty string is 0,
  and the whole rest must be a numeric literal, else the result is NaN.
\<close>

definition StringToNumber :: "string \<Rightarrow> jsnum" where
  "StringToNumber s =
     (let t = trim s
      in if t = [] then Fin 0
         else case non_decimal t of
           Some n \<Rightarrow> Fin (of_nat n)
         | None \<Rightarrow>
             (let (neg, r) = strip_sign t
              in if r = ''Infinity'' then mk_inf neg
                 else case unsigned_decimal r of
                   Some (q, []) \<Rightarrow> mk_fin neg q
                 | _ \<Rightarrow> NaN))"

text \<open>
  \<open>parseFloat(s)\<close>: leading white space is skipped and the longest prefix that is a
  decimal literal is converted; NaN when there is none.
\<close>

definition parseFloat :: "string \<Rightarrow> jsnum" where
  "parseFloat s =
     (let (neg, r) = strip_sign (trimStart s)
      in if take 8 r = ''Infinity'' then mk_inf neg
         else case unsigned_decimal r of
           Some (q, _) \<Rightarrow> mk_fin neg q
         | None \<Rightarrow> NaN)"

text \<open>A value that is a string or a number, as the argument of \<open>Number\<close> is.\<close>

datatype jsval = JStr string | JNum jsnum

fun Number :: "jsval \<Rightarrow> jsnum" where
  "Number (JStr s) = StringToNumber s"
| "Number (JNum n) = n"

text \<open>
  \<open>s.split(/\s+|,/)\<close>: the string is cut at every maximal run of white space and at
  every single comma; a comma next to white space, or next to another comma, leaves an
  empty piece between the two separators.  \<open>cur\<close> is the piece being read.
\<close>

function split_loop :: "string \<Rightarrow> string \<Rightarrow> string list" where
  "split_loop cur [] = [cur]"
| "split_loop cur (c # cs) =
     (if is_ws c then cur # split_loop [] (dropWhile is_ws cs)
      else if c = CHR '','' then cur # split_loop [] cs
      else split_loop (cur @ [c]) cs)"
  by pat_completeness auto
termination
  by (relation "measure (\<lambda>(cur, s). length s)") (auto simp: length_dropWhile_le less_Suc_eq_le)

definition split_ws_comma :: "string \<Rightarrow> string list" where
  "split_ws_comma s = split_loop [] s"

text \<open>
  Two notions used to describe inputs of the split: a field is a non-empty string
  without white space and commas, and a single separator is one comma or one non-empty
  run of white space.
\<close>

definition is_field :: "string \<Rightarrow> bool" where
  "is_field f = (f \<noteq> [] \<and> list_all (\<lambda>c. \<not> is_ws c \<and> c \<noteq> CHR '','') f)"

definition is_single_sep :: "string \<Rightarrow> bool" where
  "is_single_sep s = (s = '','' \<or> s \<noteq> [] \<and> list_all is_ws s)"


section \<open>The parsed document\<close>

text \<open>
  \<open>createSvgIcon\<close> obtains its markup (inline, or fetched from a URL) and hands it to the
  browser's \<open>DOMParser\<close>.  Both are outside the repository; the model starts from the
  parsed document, a tree of elements with a local name, attributes and child elements.
\<close>

datatype element =
  Element (localName: string) (attributes: "(string \<times> string) list") (childElements: "element list")

definition getAttribute :: "element \<Rightarrow> string \<Rightarrow> string option" where
  "getAttribute e name = map_of (attributes e) name"

definition hasAttribute :: "element \<Rightarrow> string \<Rightarrow> bool" where
  "hasAttribute e name = (getAttribute e name \<noteq> None)"

text \<open>An element and its descendants, in document order.\<close>

fun elements :: "element \<Rightarrow> element list" where
  "elements (Element t as cs) = Element t as cs # concat (map elements cs)"

text \<open>\<open>doc.querySelectorAll(sel)\<close> for a type selector.\<close>

definition querySelectorAll :: "element \<Rightarrow> string \<Rightarrow> element list" where
  "querySelectorAll doc sel = filter (\<lambda>e. localName e = sel) (elements doc)"

section \<open>Scene nodes\<close>

text \<open>
  The nodes of the scene graph are the configurations their constructors receive.
  A property that the code does not pass is \<open>None\<close>.
\<close>

record path_config =
  path_data :: string
  path_fill :: "string option"
  path_stroke :: "string option"
  path_strokeWidth :: "jsnum option"

record group_config =
  group_x :: jsnum
  group_y :: jsnum
  offsetX :: jsnum
  offsetY :: jsnum
  scaleX :: jsnum
  scaleY :: jsnum
  group_children :: "path_config list"

datatype stop = StopAt jsnum | StopColor string

record rect_config =
  rect_x :: jsnum
  rect_y :: jsnum
  rect_width :: jsnum
  rect_height :: jsnum
  fillLinearGradientStartPoint :: "jsnum \<times> jsnum"
  fillLinearGradientEndPoint :: "jsnum \<times> jsnum"
  fillLinearGradientColorStops :: "stop list"
  rect_stroke :: string
  cornerRadius :: "jsnum list"
  rect_strokeWidth :: jsnum
  shadowColor :: string
  shadowBlur :: jsnum
  shadowOffset :: "jsnum \<times> jsnum"
  shadowOpacity :: jsnum

record line_config =
  points :: "jsnum list"
  line_stroke :: string
  line_strokeWidth :: jsnum
  lineCap :: string

datatype node = Group group_config | Rect rect_config | Line line_config

section \<open>createSvgIcon\<close>

text \<open>
  The arguments of \<open>createSvgIcon\<close>; \<open>arg_svg\<close> is the parsed document.  An optional
  argument that the caller leaves out is \<open>None\<close>.
\<close>

record CreateSvgIconArgs =
  arg_x :: jsnum
  arg_y :: jsnum
  arg_svg :: element
  arg_size :: "jsnum option"
  arg_fill :: "string option"
  arg_stroke :: "string option"
  arg_strokeWidth :: "jsnum option"

text \<open>
  The four numbers read from the \<open>viewBox\<close> attribute: all 0 when the attribute is
  missing or empty, or when the split does not give exactly four pieces.
\<close>

definition viewBox_nums :: "element \<Rightarrow> jsnum \<times> jsnum \<times> jsnum \<times> jsnum" where
  "viewBox_nums svgEl =
     (case getAttribute svgEl ''viewBox'' of
        None \<Rightarrow> (Fin 0, Fin 0, Fin 0, Fin 0)
      | Some vbAttr \<Rightarrow>
          if vbAttr = [] then (Fin 0, Fin 0, Fin 0, Fin 0)
          else
            (case map StringToNumber (split_ws_comma (trim vbAttr)) of
               [a, b, c, d] \<Rightarrow> (a, b, c, d)
             | _ \<Rightarrow> (Fin 0, Fin 0, Fin 0, Fin 0)))"

text \<open>\<open>Number(svgEl.getAttribute(name) || 128)\<close>.\<close>

definition attr_or_128 :: "element \<Rightarrow> string \<Rightarrow> jsnum" where
  "attr_or_128 svgEl name =
     Number (case getAttribute svgEl name of
               None \<Rightarrow> JNum (Fin 128)
             | Some s \<Rightarrow> if s = [] then JNum (Fin 128) else JStr s)"

text \<open>
  The source dimensions \<open>(vbX, vbY, vbW, vbH)\<close>: the width and the height come from the
  \<open>width\<close> and \<open>height\<close> attributes when one of the two numbers of the view box is falsy.
\<close>

definition source_dims :: "element \<Rightarrow> jsnum \<times> jsnum \<times> jsnum \<times> jsnum" where
  "source_dims svgEl =
     (let (vbX, vbY, vbW, vbH) = viewBox_nums svgEl
      in if \<not> js_truthy vbW \<or> \<not> js_truthy vbH
         then (vbX, vbY, attr_or_128 svgEl ''width'', attr_or_128 svgEl ''height'')
         else (vbX, vbY, vbW, vbH))"

text \<open>\<open>a ?? b\<close> on optional values.\<close>

definition nullish :: "'a option \<Rightarrow> 'a option \<Rightarrow> 'a option" where
  "nullish a b = (case a of Some v \<Rightarrow> Some v | None \<Rightarrow> b)"

text \<open>\<open>p && p !== 'none' ? p : undefined\<close>: the empty string is falsy.\<close>

definition paint :: "string option \<Rightarrow> string option" where
  "paint p = (case p of None \<Rightarrow> None | Some c \<Rightarrow> if c \<noteq> [] \<and> c \<noteq> ''none'' then Some c else None)"

text \<open>The path node made for a \<open>path\<close> element \<open>p\<close> with data \<open>d\<close>.\<close>

definition path_node :: "CreateSvgIconArgs \<Rightarrow> element \<Rightarrow> string \<Rightarrow> path_config" where
  "path_node args p d =
     (let pathFill = nullish (arg_fill args) (getAttribute p ''fill'');
          pathStroke = nullish (arg_stroke args) (getAttribute p ''stroke'');
          sw = nullish (arg_strokeWidth args)
                 (if hasAttribute p ''stroke-width''
                  then Some (Number (JStr (the (getAttribute p ''stroke-width'')))) else None)
      in \<lparr>path_data = d, path_fill = paint pathFill, path_stroke = paint pathStroke,
          path_strokeWidth = sw\<rparr>)"

text \<open>The loop over the paths: a path whose \<open>d\<close> is missing or empty is passed over.\<close>

fun add_paths :: "CreateSvgIconArgs \<Rightarrow> element list \<Rightarrow> path_config list" where
  "add_paths args [] = []"
| "add_paths args (p # ps) =
     (case getAttribute p ''d'' of
        None \<Rightarrow> add_paths args ps
      | Some d \<Rightarrow> if d = [] then add_paths args ps else path_node args p d # add_paths args ps)"

definition createSvgIcon :: "CreateSvgIconArgs \<Rightarrow> node list" where
  "createSvgIcon args =
     (let sz = (case arg_size args of None \<Rightarrow> Fin 18 | Some s \<Rightarrow> s);
          svgEl = arg_svg args;
          (vbX, vbY, vbW, vbH) = source_dims svgEl;
          scale = js_div sz (Math_max vbW vbH);
          paths = querySelectorAll (arg_svg args) ''path''
      in [Group \<lparr>group_x = arg_x args, group_y = arg_y args, offsetX = vbX, offsetY = vbY,
                 scaleX = scale, scaleY = scale, group_children = add_paths args paths\<rparr>])"


section \<open>createDocumentIcon\<close>


definition width :: jsnum where "width = Fin 16"
definition height :: jsnum where "height = Fin 16"
definition paddingTop :: jsnum where "paddingTop = Fin 4"
definition paddingBottom :: jsnum where "paddingBottom = Fin 4"
definition textLineCount :: nat where "textLineCount = 4"

definition spacing :: jsnum where
  "spacing =
     js_div (js_sub (js_sub height paddingTop) paddingBottom) (js_add (Fin (of_nat textLineCount)) (Fin 1))"

text \<open>The line drawn for the counter \<open>i\<close> of the loop.\<close>

definition text_line :: "jsnum \<Rightarrow> jsnum \<Rightarrow> nat \<Rightarrow> line_config" where
  "text_line px py i =
     (let yPos = js_add (js_add py paddingTop) (js_mul (Fin (of_nat i)) spacing);
          xEnd = (if i = 1 then js_sub (js_add px width) (Fin 6) else js_sub (js_add px width) (Fin 3))
      in \<lparr>points = [js_add px (Fin 3), yPos, xEnd, yPos], line_stroke = ''#555'',
          line_strokeWidth = Fin (6 / 10), lineCap = ''round''\<rparr>)"



section \<open>The expandable paragraph\<close>

record ExpandableParagraphProps =
  prop_text :: string
  prop_rows :: "jsnum option"
  prop_moreLabel :: "string option"
  prop_lessLabel :: "string option"

text \<open>The two state variables of the component; both start as \<open>false\<close>.\<close>

record paragraph_state =
  expanded :: bool
  isOverflowing :: bool


text \<open>
  What a measurement reads from the element behind \<open>textRef\<close>: the \<open>lineHeight\<close> of
  its computed style, a string, and its \<open>scrollHeight\<close>, an integer.
\<close>

record measured_element =
  lineHeight :: string
  scrollHeight :: int

definition rows_of :: "ExpandableParagraphProps \<Rightarrow> jsnum" where
  "rows_of props = (case prop_rows props of None \<Rightarrow> Fin 3 | Some r \<Rightarrow> r)"

text \<open>The line height that a measurement computes: \<open>parseFloat(lineHeight || '22')\<close>.\<close>

definition line_height :: "measured_element \<Rightarrow> jsnum" where
  "line_height el = parseFloat (if lineHeight el = [] then ''22'' else lineHeight el)"

text \<open>
  \<open>measureOverflow\<close>: nothing happens while the reference holds no element (\<open>None\<close>);
  otherwise the flag \<open>isOverflowing\<close> is set to the result of the comparison.
\<close>

definition measureOverflow ::
  "ExpandableParagraphProps \<Rightarrow> measured_element option \<Rightarrow> paragraph_state \<Rightarrow> paragraph_state" where
  "measureOverflow props current st =
     (case current of
        None \<Rightarrow> st
      | Some el \<Rightarrow>
          (let maxHeight = js_mul (line_height el) (rows_of props);
               isOver = js_gt (Fin (of_int (scrollHeight el))) (js_add maxHeight (Fin 1))
           in st\<lparr>isOverflowing := isOver\<rparr>))"

definition toggleExpanded :: "paragraph_state \<Rightarrow> paragraph_state" where
  "toggleExpanded st = st\<lparr>expanded := \<not> expanded st\<rparr>"

text \<open>
  What the component renders from its state: the line clamp of the text (\<open>None\<close> is
  \<open>'unset'\<close>) and the label of the more/less link (\<open>None\<close> when no link is rendered).
\<close>

record rendered =
  WebkitLineClamp :: "jsnum option"
  link_label :: "string option"

definition render :: "ExpandableParagraphProps \<Rightarrow> paragraph_state \<Rightarrow> rendered" where
  "render props st =
     (let moreLabel = (case prop_moreLabel props of None \<Rightarrow> ''More'' | Some l \<Rightarrow> l);
          lessLabel = (case prop_lessLabel props of None \<Rightarrow> ''Less'' | Some l \<Rightarrow> l)
      in \<lparr>WebkitLineClamp = (if \<not> expanded st \<and> isOverflowing st then Some (rows_of props) else None),
          link_label = (if isOverflowing st
                        then Some (if \<not> expanded st then moreLabel else lessLabel) else None)\<rparr>)"


text \<open>
  The state changes in two ways only: a measurement (on mount, when \<open>text\<close> or
  \<open>rows\<close> change, and from the resize observer), and a click on the more/less link,
  which exists only while it is rendered.
\<close>

datatype event = Measure "measured_element option" | Click

fun step :: "ExpandableParagraphProps \<Rightarrow> event \<Rightarrow> paragraph_state \<Rightarrow> paragraph_state" where
  "step props (Measure current) st = measureOverflow props current st"
| "step props Click st =
     (if link_label (render props st) \<noteq> None then toggleExpanded st else st)"

section \<open>Arithmetic on finite numbers\<close>

lemma js_add_Fin [simp]: "js_add (Fin a) (Fin b) = Fin (a + b)"
  by simp

lemma js_sub_Fin [simp]: "js_sub (Fin a) (Fin b) = Fin (a - b)"
  by (simp add: js_sub_def)

lemma js_mul_Fin_nonzero: "a \<noteq> 0 \<Longrightarrow> b \<noteq> 0 \<Longrightarrow> js_mul (Fin a) (Fin b) = Fin (a * b)"
  by (simp add: js_mul_def)

lemma js_mul_Fin_val: "js_val (js_mul (Fin a) (Fin b)) = a * b \<and> \<not> is_inf (js_mul (Fin a) (Fin b)) \<and> js_mul (Fin a) (Fin b) \<noteq> NaN"
  by (auto simp: js_mul_def mk_zero_def)

lemma js_div_Fin_nonzero: "b \<noteq> 0 \<Longrightarrow> a \<noteq> 0 \<Longrightarrow> js_div (Fin a) (Fin b) = Fin (a / b)"
  by (simp add: js_div_def)


lemma js_div_Fin_val:
  "b \<noteq> 0 \<Longrightarrow> js_val (js_div (Fin a) (Fin b)) = a / b \<and> \<not> is_inf (js_div (Fin a) (Fin b)) \<and> js_div (Fin a) (Fin b) \<noteq> NaN"
  by (auto simp: js_div_def mk_zero_def)


text \<open>Adding a positive number to a finite number: a negative zero does not show.\<close>

lemma js_add_finite_pos:
  "\<not> is_inf m \<Longrightarrow> m \<noteq> NaN \<Longrightarrow> c \<noteq> 0 \<Longrightarrow> js_add m (Fin c) = Fin (js_val m + c)"
  by (cases m) auto

lemma js_gt_Fin [simp]: "js_gt (Fin a) (Fin b) = (b < a)"
  by (simp add: js_gt_def)

section \<open>The document icon\<close>


lemma spacing_value: "spacing = Fin (8 / 5)"
  by (simp add: spacing_def height_def paddingTop_def paddingBottom_def textLineCount_def
      js_div_def)


lemma text_line_points:
  "points (text_line px py i) =
     [js_add px (Fin 3),
      js_add (js_add py (Fin 4)) (js_mul (Fin (of_nat i)) (Fin (8 / 5))),
      js_sub (js_add px (Fin 16)) (Fin (if i = 1 then 6 else 3)),
      js_add (js_add py (Fin 4)) (js_mul (Fin (of_nat i)) (Fin (8 / 5)))]"
  by (simp add: text_line_def spacing_value paddingTop_def width_def Let_def)

lemma text_line_points_Fin:
  "0 < i \<Longrightarrow> points (text_line (Fin a) (Fin b) i) =
     [Fin (a + 3), Fin (b + 4 + of_nat i * (8 / 5)),
      Fin (a + 16 - (if i = 1 then 6 else 3)), Fin (b + 4 + of_nat i * (8 / 5))]"
  by (simp add: text_line_points js_mul_Fin_nonzero)




section \<open>The expandable paragraph: measuring and toggling\<close>


lemma max_height_plus_one:
  "js_add (js_mul (Fin l) (Fin r)) (Fin 1) = Fin (r * l + 1)"
  using js_mul_Fin_val [of l r] js_add_finite_pos [of "js_mul (Fin l) (Fin r)" 1]
  by (simp add: mult.commute)

lemma isOverflowing_measure:
  "isOverflowing (measureOverflow props (Some el) st) =
     js_gt (Fin (of_int (scrollHeight el)))
       (js_add (js_mul (line_height el) (rows_of props)) (Fin 1))"
  by (simp add: measureOverflow_def Let_def)

text \<open>
  A line height that is not a number, such as \<open>normal\<close>, gives NaN (the 22 stands in
  for an empty string only), and then no content is flagged.
\<close>

lemma measureOverflow_NaN:
  "line_height el = NaN \<Longrightarrow> \<not> isOverflowing (measureOverflow props (Some el) st)"
  by (simp add: isOverflowing_measure js_mul_def js_gt_def)

lemma line_height_normal: "line_height \<lparr>lineHeight = ''normal'', scrollHeight = h\<rparr> = NaN"
  unfolding line_height_def by simp code_simp



text \<open>
  C9: a measurement never changes \<open>expanded\<close>, and among the events of the component
  only a click on the link changes it.  The more/less link is rendered exactly when
  \<open>isOverflowing\<close> holds, so a measurement that finds an expanded paragraph no longer
  overflowing removes the link and leaves \<open>expanded\<close> true.
\<close>

theorem measureOverflow_keeps_expanded:
  "expanded (measureOverflow props current st) = expanded st
   \<and> (expanded (step props ev st) \<noteq> expanded st \<longrightarrow> ev = Click)
   \<and> (link_label (render props st) \<noteq> None \<longleftrightarrow> isOverflowing st)
   \<and> (expanded st \<and> \<not> isOverflowing (measureOverflow props current st) \<longrightarrow>
        link_label (render props (measureOverflow props current st)) = None
        \<and> expanded (measureOverflow props current st))"
proof -
  have keep: "expanded (measureOverflow props c st) = expanded st" for c
    by (cases c) (simp_all add: measureOverflow_def Let_def)
  have only_click: "expanded (step props ev st) \<noteq> expanded st \<longrightarrow> ev = Click"
    by (cases ev) (simp_all add: keep)
  have link: "link_label (render props s) \<noteq> None \<longleftrightarrow> isOverflowing s" for s
    by (simp add: render_def Let_def)
  show ?thesis
    using keep [of current] only_click link [of st] link [of "measureOverflow props current st"]
    by auto
qed

theorem measureOverflow_keeps_expanded_witness:
  "expanded \<lparr>expanded = True, isOverflowing = True\<rparr>
   \<and> \<not> isOverflowing (measureOverflow
          \<lparr>prop_text = ''abc'', prop_rows = None, prop_moreLabel = None, prop_lessLabel = None\<rparr>
          (Some \<lparr>lineHeight = ''22px'', scrollHeight = 44\<rparr>)
          \<lparr>expanded = True, isOverflowing = True\<rparr>)
   \<and> link_label (render
          \<lparr>prop_text = ''abc'', prop_rows = None, prop_moreLabel = None, prop_lessLabel = None\<rparr>
          (measureOverflow
            \<lparr>prop_text = ''abc'', prop_rows = None, prop_moreLabel = None, prop_lessLabel = None\<rparr>
            (Some \<lparr>lineHeight = ''22px'', scrollHeight = 44\<rparr>)
            \<lparr>expanded = True, isOverflowing = True\<rparr>)) = None
   \<and> expanded (measureOverflow
          \<lparr>prop_text = ''abc'', prop_rows = None, prop_moreLabel = None, prop_lessLabel = None\<rparr>
          (Some \<lparr>lineHeight = ''22px'', scrollHeight = 44\<rparr>)
          \<lparr>expanded = True, isOverflowing = True\<rparr>)"
proof -
  let ?props = "\<lparr>prop_text = ''abc'', prop_rows = None, prop_moreLabel = None, prop_lessLabel = None\<rparr>"
  let ?el = "\<lparr>lineHeight = ''22px'', scrollHeight = 44\<rparr>"
  let ?st = "\<lparr>expanded = True, isOverflowing = True\<rparr>"
  have l: "line_height ?el = Fin 22"
    unfolding line_height_def by simp code_simp
  have no: "\<not> isOverflowing (measureOverflow ?props (Some ?el) ?st)"
    by (simp add: isOverflowing_measure l rows_of_def max_height_plus_one)
  have e: "expanded ?st"
    by simp
  show ?thesis
    using measureOverflow_keeps_expanded [of ?props "Some ?el" ?st Click] no e by blast
qed

text \<open>
  C10: toggling twice gives the state back, and one toggle negates \<open>expanded\<close> and
  leaves \<open>isOverflowing\<close>, and every other component of the state, as it was.
\<close>

theorem toggleExpanded_involution:
  "toggleExpanded (toggleExpanded st) = st
   \<and> expanded (toggleExpanded st) = (\<not> expanded st)
   \<and> isOverflowing (toggleExpanded st) = isOverflowing st
   \<and> paragraph_state.more (toggleExpanded st) = paragraph_state.more st"
  by (simp add: toggleExpanded_def)

theorem toggleExpanded_involution_witness:
  "toggleExpanded (toggleExpanded \<lparr>expanded = False, isOverflowing = True\<rparr>)
     = \<lparr>expanded = False, isOverflowing = True\<rparr>
   \<and> toggleExpanded \<lparr>expanded = False, isOverflowing = True\<rparr>
     = \<lparr>expanded = True, isOverflowing = True\<rparr>"
  using toggleExpanded_involution [of "\<lparr>expanded = False, isOverflowing = True\<rparr>"]
  by (simp add: toggleExpanded_def)


section \<open>The icon made from a document\<close>

lemma createSvgIcon_eq:
  assumes "source_dims (arg_svg args) = (vx, vy, vw, vh)"
  shows "createSvgIcon args =
    [Group \<lparr>group_x = arg_x args, group_y = arg_y args, offsetX = vx, offsetY = vy,
            scaleX = js_div (case arg_size args of None \<Rightarrow> Fin 18 | Some s \<Rightarrow> s) (Math_max vw vh),
            scaleY = js_div (case arg_size args of None \<Rightarrow> Fin 18 | Some s \<Rightarrow> s) (Math_max vw vh),
            group_children = add_paths args (querySelectorAll (arg_svg args) ''path'')\<rparr>]"
  using assms by (simp add: createSvgIcon_def Let_def)


lemma source_dims_falsy:
  "viewBox_nums e = (vx, vy, vw, vh) \<Longrightarrow> \<not> js_truthy vw \<or> \<not> js_truthy vh \<Longrightarrow>
   source_dims e = (vx, vy, attr_or_128 e ''width'', attr_or_128 e ''height'')"
  by (auto simp: source_dims_def)



lemma attr_or_128_given:
  "getAttribute e name = Some v \<Longrightarrow> v \<noteq> [] \<Longrightarrow> attr_or_128 e name = StringToNumber v"
  by (simp add: attr_or_128_def)

lemma viewBox_nums_absent:
  "getAttribute e ''viewBox'' = None \<Longrightarrow> viewBox_nums e = (Fin 0, Fin 0, Fin 0, Fin 0)"
  by (simp add: viewBox_nums_def)









text \<open>
  C4, as stated, fails: without a view box, a \<open>width\<close> attribute that is no number
  gives NaN, not 128, and so does a length with a unit.
\<close>

theorem fallback_dims_counterexample:
  "source_dims (Element ''svg'' [(''width'', ''abc'')] []) = (Fin 0, Fin 0, NaN, Fin 128)
   \<and> source_dims (Element ''svg'' [(''width'', ''100px''), (''height'', ''50'')] [])
     = (Fin 0, Fin 0, NaN, Fin 50)
   \<and> createSvgIcon
       \<lparr>arg_x = Fin 0, arg_y = Fin 0, arg_svg = Element ''svg'' [(''width'', ''abc'')] [],
        arg_size = None, arg_fill = None, arg_stroke = None, arg_strokeWidth = None\<rparr>
     = [Group \<lparr>group_x = Fin 0, group_y = Fin 0, offsetX = Fin 0, offsetY = Fin 0,
               scaleX = NaN, scaleY = NaN, group_children = []\<rparr>]"
  by code_simp

text \<open>
  C4, amended: when the width or the height read from the \<open>viewBox\<close> attribute is
  falsy (as both are when the attribute is missing), the \<open>width\<close> and \<open>height\<close>
  attributes are used instead, each on its own: 128 when the attribute is missing or
  empty, and \<open>Number\<close> of its text otherwise.  Markup with none of the three
  attributes has the view box 0, 0, 128, 128 and the scale \<open>size / 128\<close>.
\<close>

theorem fallback_dims:
  assumes "viewBox_nums (arg_svg args) = (vx, vy, vw, vh)"
    and "\<not> js_truthy vw \<or> \<not> js_truthy vh"
  shows "source_dims (arg_svg args) =
           (vx, vy,
            (case getAttribute (arg_svg args) ''width'' of
               None \<Rightarrow> Fin 128 | Some v \<Rightarrow> if v = [] then Fin 128 else StringToNumber v),
            (case getAttribute (arg_svg args) ''height'' of
               None \<Rightarrow> Fin 128 | Some v \<Rightarrow> if v = [] then Fin 128 else StringToNumber v))
       \<and> (getAttribute (arg_svg args) ''viewBox'' = None
            \<and> getAttribute (arg_svg args) ''width'' = None
            \<and> getAttribute (arg_svg args) ''height'' = None \<longrightarrow>
            source_dims (arg_svg args) = (Fin 0, Fin 0, Fin 128, Fin 128)
            \<and> (\<exists>g. createSvgIcon args = [Group g]
                  \<and> scaleX g = js_div (case arg_size args of None \<Rightarrow> Fin 18 | Some z \<Rightarrow> z) (Fin 128)
                  \<and> scaleY g = scaleX g
                  \<and> (\<forall>s. arg_size args = Some (Fin s) \<and> s \<noteq> 0 \<longrightarrow> scaleX g = Fin (s / 128))))"
proof -
  have dims: "source_dims (arg_svg args) =
      (vx, vy, attr_or_128 (arg_svg args) ''width'', attr_or_128 (arg_svg args) ''height'')"
    using assms by (rule source_dims_falsy)
  have attr: "attr_or_128 e name =
      (case getAttribute e name of
         None \<Rightarrow> Fin 128 | Some v \<Rightarrow> if v = [] then Fin 128 else StringToNumber v)" for e name
    by (simp add: attr_or_128_def split: option.splits)
  have first: "source_dims (arg_svg args) =
           (vx, vy,
            (case getAttribute (arg_svg args) ''width'' of
               None \<Rightarrow> Fin 128 | Some v \<Rightarrow> if v = [] then Fin 128 else StringToNumber v),
            (case getAttribute (arg_svg args) ''height'' of
               None \<Rightarrow> Fin 128 | Some v \<Rightarrow> if v = [] then Fin 128 else StringToNumber v))"
    using dims by (simp only: attr)
  have m: "Math_max (Fin 128) (Fin 128) = Fin 128"
    by (simp add: Math_max_def)
  have second: "source_dims (arg_svg args) = (Fin 0, Fin 0, Fin 128, Fin 128)
        \<and> (\<exists>g. createSvgIcon args = [Group g]
              \<and> scaleX g = js_div (case arg_size args of None \<Rightarrow> Fin 18 | Some z \<Rightarrow> z) (Fin 128)
              \<and> scaleY g = scaleX g
              \<and> (\<forall>s. arg_size args = Some (Fin s) \<and> s \<noteq> 0 \<longrightarrow> scaleX g = Fin (s / 128)))"
    if none: "getAttribute (arg_svg args) ''viewBox'' = None
        \<and> getAttribute (arg_svg args) ''width'' = None
        \<and> getAttribute (arg_svg args) ''height'' = None"
  proof -
    have z: "vx = Fin 0 \<and> vy = Fin 0"
      using assms(1) none by (auto simp: viewBox_nums_absent)
    have d: "source_dims (arg_svg args) = (Fin 0, Fin 0, Fin 128, Fin 128)"
      using first z none by simp
    show ?thesis
      by (auto simp: d createSvgIcon_eq [OF d] m js_div_Fin_nonzero)
  qed
  show ?thesis
    using first second by blast
qed

theorem fallback_dims_witness:
  "viewBox_nums (Element ''svg'' [] []) = (Fin 0, Fin 0, Fin 0, Fin 0)
   \<and> \<not> js_truthy (Fin 0)
   \<and> source_dims (Element ''svg'' [] []) = (Fin 0, Fin 0, Fin 128, Fin 128)
   \<and> (\<exists>g. createSvgIcon
          \<lparr>arg_x = Fin 0, arg_y = Fin 0, arg_svg = Element ''svg'' [] [],
           arg_size = Some (Fin 32), arg_fill = None, arg_stroke = None, arg_strokeWidth = None\<rparr>
          = [Group g]
        \<and> scaleX g = Fin (1 / 4) \<and> scaleY g = Fin (1 / 4))"
proof -
  let ?e = "Element ''svg'' [] []"
  let ?args = "\<lparr>arg_x = Fin 0, arg_y = Fin 0, arg_svg = ?e,
           arg_size = Some (Fin 32), arg_fill = None, arg_stroke = None, arg_strokeWidth = None\<rparr>"
  have vb: "viewBox_nums ?e = (Fin 0, Fin 0, Fin 0, Fin 0)"
    by code_simp
  have f: "\<not> js_truthy (Fin 0)"
    by (simp add: js_truthy_def)
  have vb': "viewBox_nums (arg_svg ?args) = (Fin 0, Fin 0, Fin 0, Fin 0)"
    using vb by simp
  have f': "\<not> js_truthy (Fin 0) \<or> \<not> js_truthy (Fin 0)"
    using f by simp
  have none: "getAttribute (arg_svg ?args) ''viewBox'' = None
      \<and> getAttribute (arg_svg ?args) ''width'' = None
      \<and> getAttribute (arg_svg ?args) ''height'' = None"
    by (simp add: getAttribute_def)
  have "source_dims (arg_svg ?args) = (Fin 0, Fin 0, Fin 128, Fin 128)
        \<and> (\<exists>g. createSvgIcon ?args = [Group g]
              \<and> scaleX g = js_div (case arg_size ?args of None \<Rightarrow> Fin 18 | Some z \<Rightarrow> z) (Fin 128)
              \<and> scaleY g = scaleX g
              \<and> (\<forall>s. arg_size ?args = Some (Fin s) \<and> s \<noteq> 0 \<longrightarrow> scaleX g = Fin (s / 128)))"
    using fallback_dims [OF vb' f'] none by blast
  then obtain g where "source_dims (arg_svg ?args) = (Fin 0, Fin 0, Fin 128, Fin 128)"
      "createSvgIcon ?args = [Group g]" "scaleY g = scaleX g"
      "\<forall>s. arg_size ?args = Some (Fin s) \<and> s \<noteq> 0 \<longrightarrow> scaleX g = Fin (s / 128)"
    by blast
  then have "source_dims ?e = (Fin 0, Fin 0, Fin 128, Fin 128)
      \<and> createSvgIcon ?args = [Group g] \<and> scaleX g = Fin (1 / 4) \<and> scaleY g = Fin (1 / 4)"
    by simp
  then show ?thesis
    using vb f by blast
qed

section \<open>Reading the view box\<close>

lemma split_loop_field:
  "list_all (\<lambda>c. \<not> is_ws c \<and> c \<noteq> CHR '','') f \<Longrightarrow>
   split_loop cur (f @ r) = split_loop (cur @ f) r"
  by (induction f arbitrary: cur) simp_all

lemma dropWhile_run:
  "list_all is_ws s \<Longrightarrow> r = [] \<or> \<not> is_ws (hd r) \<Longrightarrow> dropWhile is_ws (s @ r) = r"
  by (induction s) (auto simp: dropWhile_eq_self_iff)

lemma split_loop_sep:
  assumes "is_single_sep s" and "r = [] \<or> \<not> is_ws (hd r)"
  shows "split_loop cur (s @ r) = cur # split_loop [] r"
proof (cases "s = '',''")
  case True
  have "\<not> is_ws CHR '',''"
    by (simp add: is_ws_def)
  then show ?thesis
    using True by simp
next
  case False
  then obtain c s' where s: "s = c # s'" "is_ws c" "list_all is_ws s'"
    using assms(1) by (cases s) (auto simp: is_single_sep_def)
  then show ?thesis
    using dropWhile_run [OF s(3) assms(2)] by simp
qed

lemma field_start: "is_field f \<Longrightarrow> f @ r = [] \<or> \<not> is_ws (hd (f @ r))"
  by (cases f) (auto simp: is_field_def)

lemma split_loop_step:
  assumes "is_single_sep s" and "is_field f"
  shows "split_loop cur (s @ f @ r) = cur # split_loop f r"
  using split_loop_sep [OF assms(1) field_start [OF assms(2)], of cur r]
    split_loop_field [of f "[]" r] assms(2)
  by (simp add: is_field_def)

text \<open>Four fields with single separators between them are split into the four fields.\<close>

lemma split_ws_comma_fields:
  assumes "is_field a" "is_field b" "is_field c" "is_field d"
    and "is_single_sep s1" "is_single_sep s2" "is_single_sep s3"
  shows "split_ws_comma (a @ s1 @ b @ s2 @ c @ s3 @ d) = [a, b, c, d]"
proof -
  have "split_loop [] (a @ s1 @ b @ s2 @ c @ s3 @ d) = split_loop a (s1 @ b @ s2 @ c @ s3 @ d)"
    using split_loop_field [of a "[]"] assms(1) by (simp add: is_field_def)
  also have "\<dots> = a # split_loop b (s2 @ c @ s3 @ d)"
    using split_loop_step [OF assms(5) assms(2)] by simp
  also have "\<dots> = a # b # split_loop c (s3 @ d)"
    using split_loop_step [OF assms(6) assms(3)] by simp
  also have "\<dots> = a # b # c # split_loop d []"
    using split_loop_step [OF assms(7) assms(4), of c "[]"] by simp
  finally show ?thesis
    by (simp add: split_ws_comma_def)
qed

lemma trim_fields:
  assumes "is_field a" and "is_field d"
  shows "trim (a @ m @ d) = a @ m @ d"
proof -
  have front: "dropWhile is_ws (a @ m @ d) = a @ m @ d"
    using assms(1) by (cases a) (auto simp: is_field_def)
  have "\<not> is_ws (last d)" and "d \<noteq> []"
    using assms(2) by (auto simp: is_field_def list_all_iff)
  then have "dropWhile is_ws (rev d @ r) = rev d @ r" for r
    by (cases d rule: rev_cases) auto
  then have "dropWhile is_ws (rev (a @ m @ d)) = rev (a @ m @ d)"
    by simp
  then show ?thesis
    by (simp only: trim_def front rev_rev_ident)
qed

text \<open>
  So a \<open>viewBox\<close> attribute of four fields, with one comma or one run of white space
  between two fields, is read as the four numbers of its fields.
\<close>

lemma viewBox_nums_single_separators:
  assumes "getAttribute e ''viewBox'' = Some (a @ s1 @ b @ s2 @ c @ s3 @ d)"
    and "is_field a" "is_field b" "is_field c" "is_field d"
    and "is_single_sep s1" "is_single_sep s2" "is_single_sep s3"
  shows "viewBox_nums e = (StringToNumber a, StringToNumber b, StringToNumber c, StringToNumber d)"
proof -
  define v where "v = a @ s1 @ b @ s2 @ c @ s3 @ d"
  have ne: "v \<noteq> []"
    using assms(2) by (simp add: is_field_def v_def)
  have t: "trim v = v"
    using trim_fields [OF assms(2) assms(5), of "s1 @ b @ s2 @ c @ s3"] by (simp add: v_def)
  have sp: "split_ws_comma v = [a, b, c, d]"
    unfolding v_def by (rule split_ws_comma_fields [OF assms(2-8)])
  have "getAttribute e ''viewBox'' = Some v"
    using assms(1) by (simp add: v_def)
  then show ?thesis
    using ne by (simp add: viewBox_nums_def t sp)
qed

text \<open>
  C5 fails on the code where a comma is followed by a space: the split leaves an empty
  piece between the comma and the space, the pieces are seven, not four, and the view box
  is given up for 0, 0 and the 128 by 128 of the missing \<open>width\<close> and \<open>height\<close>.  The
  same numbers separated by spaces only, or by commas only, are read as they are.
\<close>

theorem viewBox_comma_space:
  "split_ws_comma ''0, 0, 24, 24'' = [''0'', [], ''0'', [], ''24'', [], ''24'']
   \<and> viewBox_nums (Element ''svg'' [(''viewBox'', ''0, 0, 24, 24'')] [])
     = (Fin 0, Fin 0, Fin 0, Fin 0)
   \<and> source_dims (Element ''svg'' [(''viewBox'', ''4, 4, 24, 24'')] [])
     = (Fin 0, Fin 0, Fin 128, Fin 128)
   \<and> viewBox_nums (Element ''svg'' [(''viewBox'', ''4 4 24 24'')] [])
     = (Fin 4, Fin 4, Fin 24, Fin 24)
   \<and> viewBox_nums (Element ''svg'' [(''viewBox'', ''4,4,24,24'')] [])
     = (Fin 4, Fin 4, Fin 24, Fin 24)
   \<and> createSvgIcon
       \<lparr>arg_x = Fin 0, arg_y = Fin 0, arg_svg = Element ''svg'' [(''viewBox'', ''4, 4, 24, 24'')] [],
        arg_size = None, arg_fill = None, arg_stroke = None, arg_strokeWidth = None\<rparr>
     = [Group \<lparr>group_x = Fin 0, group_y = Fin 0, offsetX = Fin 0, offsetY = Fin 0,
               scaleX = Fin (9 / 64), scaleY = Fin (9 / 64), group_children = []\<rparr>]"
  by code_simp


text \<open>
  At that input the width and the height read from the attribute are zero, so the
  branch of the missing view box is the one taken.
\<close>

theorem viewBox_comma_space_witness:
  "viewBox_nums (Element ''svg'' [(''viewBox'', ''0, 0, 24, 24'')] [])
     = (Fin 0, Fin 0, Fin 0, Fin 0)
   \<and> \<not> js_truthy (Fin 0)
   \<and> source_dims (Element ''svg'' [(''viewBox'', ''4, 4, 24, 24'')] [])
     = (Fin 0, Fin 0, Fin 128, Fin 128)"
proof -
  have f: "\<not> js_truthy (Fin 0)"
    by (simp add: js_truthy_def)
  show ?thesis
    using viewBox_comma_space f by blast
qed

section \<open>The paths of the icon\<close>

lemma add_paths_map_filter:
  "add_paths args ps =
     map (\<lambda>p. path_node args p (the (getAttribute p ''d'')))
       (filter (\<lambda>p. getAttribute p ''d'' \<noteq> None \<and> getAttribute p ''d'' \<noteq> Some []) ps)"
  by (induction ps) (auto split: option.splits)

lemma createSvgIcon_children_eq:
  "\<exists>g. createSvgIcon args = [Group g]
     \<and> group_children g = add_paths args (querySelectorAll (arg_svg args) ''path'')"
proof -
  obtain vx vy vw vh where "source_dims (arg_svg args) = (vx, vy, vw, vh)"
    by (cases "source_dims (arg_svg args)") auto
  then show ?thesis
    by (simp add: createSvgIcon_eq)
qed

text \<open>
  C6, as stated, fails: a path whose \<open>d\<close> attribute is present and empty has the
  attribute and yet gets no child.
\<close>

theorem createSvgIcon_children_counterexample:
  "hasAttribute (Element ''path'' [(''d'', [])] []) ''d''
   \<and> querySelectorAll
        (Element ''svg'' [] [Element ''path'' [(''d'', [])] [], Element ''path'' [(''d'', ''M0 0'')] []])
        ''path''
     = [Element ''path'' [(''d'', [])] [], Element ''path'' [(''d'', ''M0 0'')] []]
   \<and> createSvgIcon
       \<lparr>arg_x = Fin 0, arg_y = Fin 0,
        arg_svg = Element ''svg'' []
          [Element ''path'' [(''d'', [])] [], Element ''path'' [(''d'', ''M0 0'')] []],
        arg_size = None, arg_fill = None, arg_stroke = None, arg_strokeWidth = None\<rparr>
     = [Group \<lparr>group_x = Fin 0, group_y = Fin 0, offsetX = Fin 0, offsetY = Fin 0,
               scaleX = Fin (9 / 64), scaleY = Fin (9 / 64),
               group_children =
                 [\<lparr>path_data = ''M0 0'', path_fill = None, path_stroke = None,
                   path_strokeWidth = None\<rparr>]\<rparr>]"
  by code_simp

text \<open>
  C6, amended: for every document the result is one group, and its children are the
  nodes of the \<open>path\<close> elements that have a non-empty \<open>d\<close> attribute, one child for
  each, in document order, with that \<open>d\<close> as data; a path whose \<open>d\<close> is missing or
  empty is passed over and the others are kept.  A document without a \<open>path\<close> element
  gives a group without children.
\<close>

theorem createSvgIcon_children:
  "\<exists>g. createSvgIcon args = [Group g]
     \<and> group_children g =
         map (\<lambda>p. path_node args p (the (getAttribute p ''d'')))
           (filter (\<lambda>p. localName p = ''path'' \<and> getAttribute p ''d'' \<noteq> None
                         \<and> getAttribute p ''d'' \<noteq> Some [])
              (elements (arg_svg args)))
     \<and> map path_data (group_children g) =
         map (\<lambda>p. the (getAttribute p ''d''))
           (filter (\<lambda>p. localName p = ''path'' \<and> getAttribute p ''d'' \<noteq> None
                         \<and> getAttribute p ''d'' \<noteq> Some [])
              (elements (arg_svg args)))
     \<and> (querySelectorAll (arg_svg args) ''path'' = [] \<longrightarrow> group_children g = [])"
proof -
  obtain g where g: "createSvgIcon args = [Group g]"
      "group_children g = add_paths args (querySelectorAll (arg_svg args) ''path'')"
    using createSvgIcon_children_eq by blast
  have data: "path_data (path_node args p d) = d" for p d
    by (simp add: path_node_def Let_def)
  have kids: "group_children g =
         map (\<lambda>p. path_node args p (the (getAttribute p ''d'')))
           (filter (\<lambda>p. localName p = ''path'' \<and> getAttribute p ''d'' \<noteq> None
                         \<and> getAttribute p ''d'' \<noteq> Some [])
              (elements (arg_svg args)))"
    by (simp add: g(2) add_paths_map_filter querySelectorAll_def conj_commute conj_left_commute)
  have datas: "map path_data (group_children g) =
         map (\<lambda>p. the (getAttribute p ''d''))
           (filter (\<lambda>p. localName p = ''path'' \<and> getAttribute p ''d'' \<noteq> None
                         \<and> getAttribute p ''d'' \<noteq> Some [])
              (elements (arg_svg args)))"
    by (simp add: kids data comp_def)
  have none: "querySelectorAll (arg_svg args) ''path'' = [] \<longrightarrow> group_children g = []"
    by (simp add: g(2))
  show ?thesis
    using g(1) kids datas none by blast
qed

theorem createSvgIcon_children_witness:
  "querySelectorAll (Element ''svg'' [] [Element ''g'' [] []]) ''path'' = []
   \<and> (\<exists>g. createSvgIcon
          \<lparr>arg_x = Fin 0, arg_y = Fin 0, arg_svg = Element ''svg'' [] [Element ''g'' [] []],
           arg_size = None, arg_fill = None, arg_stroke = None, arg_strokeWidth = None\<rparr>
          = [Group g]
        \<and> group_children g = [])"
proof -
  let ?args = "\<lparr>arg_x = Fin 0, arg_y = Fin 0, arg_svg = Element ''svg'' [] [Element ''g'' [] []],
           arg_size = None, arg_fill = None, arg_stroke = None, arg_strokeWidth = None\<rparr>"
  have q: "querySelectorAll (Element ''svg'' [] [Element ''g'' [] []]) ''path'' = []"
    by code_simp
  then have q': "querySelectorAll (arg_svg ?args) ''path'' = []"
    by simp
  show ?thesis
    using createSvgIcon_children [of ?args] q q' by blast
qed

text \<open>
  C3, as stated, fails: with the empty string as the caller's fill and a path that
  declares \<open>fill="red"\<close>, the node's fill is unset: neither the override nor the
  declared attribute.  The override \<open>none\<close> is dropped in the same way.
\<close>

theorem path_node_style_counterexample:
  "createSvgIcon
       \<lparr>arg_x = Fin 0, arg_y = Fin 0,
        arg_svg = Element ''svg'' [] [Element ''path'' [(''d'', ''M0 0''), (''fill'', ''red'')] []],
        arg_size = None, arg_fill = Some [], arg_stroke = None, arg_strokeWidth = None\<rparr>
     = [Group \<lparr>group_x = Fin 0, group_y = Fin 0, offsetX = Fin 0, offsetY = Fin 0,
               scaleX = Fin (9 / 64), scaleY = Fin (9 / 64),
               group_children =
                 [\<lparr>path_data = ''M0 0'', path_fill = None, path_stroke = None,
                   path_strokeWidth = None\<rparr>]\<rparr>]
   \<and> path_fill (path_node
        \<lparr>arg_x = Fin 0, arg_y = Fin 0,
         arg_svg = Element ''svg'' [] [Element ''path'' [(''d'', ''M0 0''), (''fill'', ''red'')] []],
         arg_size = None, arg_fill = Some ''none'', arg_stroke = None, arg_strokeWidth = None\<rparr>
        (Element ''path'' [(''d'', ''M0 0''), (''fill'', ''red'')] []) ''M0 0'') = None"
  by code_simp

text \<open>
  C3, amended: for every path and for fill and stroke alike, the value chosen is the
  caller's override when one is given, else the attribute the path declares; the node
  gets the chosen value unless it is the empty string or \<open>none\<close>, and then, as when
  nothing is chosen, the field is unset.  So \<open>none\<close> never reaches a node, whether
  declared or given by the caller.  The stroke width is the caller's when given, else
  \<open>Number\<close> of a declared \<open>stroke-width\<close>, else unset, never a default 0.  The
  children of the group are such nodes.
\<close>

theorem path_node_style:
  "path_fill (path_node args p d) =
     (case arg_fill args of
        Some f \<Rightarrow> if f = [] \<or> f = ''none'' then None else Some f
      | None \<Rightarrow>
          (case getAttribute p ''fill'' of
             Some c \<Rightarrow> if c = [] \<or> c = ''none'' then None else Some c
           | None \<Rightarrow> None))
   \<and> path_stroke (path_node args p d) =
     (case arg_stroke args of
        Some f \<Rightarrow> if f = [] \<or> f = ''none'' then None else Some f
      | None \<Rightarrow>
          (case getAttribute p ''stroke'' of
             Some c \<Rightarrow> if c = [] \<or> c = ''none'' then None else Some c
           | None \<Rightarrow> None))
   \<and> path_strokeWidth (path_node args p d) =
     (case arg_strokeWidth args of
        Some w \<Rightarrow> Some w
      | None \<Rightarrow>
          (case getAttribute p ''stroke-width'' of
             Some v \<Rightarrow> Some (StringToNumber v)
           | None \<Rightarrow> None))
   \<and> path_fill (path_node args p d) \<noteq> Some ''none''
   \<and> path_stroke (path_node args p d) \<noteq> Some ''none''
   \<and> (\<forall>g c. createSvgIcon args = [Group g] \<and> c \<in> set (group_children g) \<longrightarrow>
         (\<exists>q e. q \<in> set (querySelectorAll (arg_svg args) ''path'')
            \<and> getAttribute q ''d'' = Some e \<and> e \<noteq> [] \<and> c = path_node args q e))"
proof -
  have kids: "\<exists>q e. q \<in> set (querySelectorAll (arg_svg args) ''path'')
            \<and> getAttribute q ''d'' = Some e \<and> e \<noteq> [] \<and> c = path_node args q e"
    if "createSvgIcon args = [Group g]" and "c \<in> set (group_children g)" for g c
  proof -
    have "group_children g = add_paths args (querySelectorAll (arg_svg args) ''path'')"
      using createSvgIcon_children_eq [of args] that(1) by auto
    then show ?thesis
      using that(2) by (auto simp: add_paths_map_filter)
  qed
  have styles: "path_fill (path_node args p d) =
     (case arg_fill args of
        Some f \<Rightarrow> if f = [] \<or> f = ''none'' then None else Some f
      | None \<Rightarrow>
          (case getAttribute p ''fill'' of
             Some c \<Rightarrow> if c = [] \<or> c = ''none'' then None else Some c
           | None \<Rightarrow> None))
   \<and> path_stroke (path_node args p d) =
     (case arg_stroke args of
        Some f \<Rightarrow> if f = [] \<or> f = ''none'' then None else Some f
      | None \<Rightarrow>
          (case getAttribute p ''stroke'' of
             Some c \<Rightarrow> if c = [] \<or> c = ''none'' then None else Some c
           | None \<Rightarrow> None))
   \<and> path_strokeWidth (path_node args p d) =
     (case arg_strokeWidth args of
        Some w \<Rightarrow> Some w
      | None \<Rightarrow>
          (case getAttribute p ''stroke-width'' of
             Some v \<Rightarrow> Some (StringToNumber v)
           | None \<Rightarrow> None))"
    by (simp add: path_node_def Let_def nullish_def paint_def hasAttribute_def
        split: option.splits)
  have no_none: "paint v \<noteq> Some ''none''" for v
    by (simp add: paint_def split: option.splits)
  have "path_fill (path_node args p d) \<noteq> Some ''none''
      \<and> path_stroke (path_node args p d) \<noteq> Some ''none''"
    by (simp add: path_node_def Let_def no_none)
  then show ?thesis
    using styles kids by blast
qed

theorem path_node_style_witness:
  "path_fill (path_node
      \<lparr>arg_x = Fin 0, arg_y = Fin 0, arg_svg = Element ''svg'' [] [],
       arg_size = None, arg_fill = Some ''blue'', arg_stroke = None, arg_strokeWidth = None\<rparr>
      (Element ''path'' [(''d'', ''M0 0''), (''fill'', ''red'')] []) ''M0 0'') = Some ''blue''
   \<and> path_fill (path_node
      \<lparr>arg_x = Fin 0, arg_y = Fin 0, arg_svg = Element ''svg'' [] [],
       arg_size = None, arg_fill = None, arg_stroke = None, arg_strokeWidth = None\<rparr>
      (Element ''path'' [(''d'', ''M0 0''), (''fill'', ''red'')] []) ''M0 0'') = Some ''red''
   \<and> path_fill (path_node
      \<lparr>arg_x = Fin 0, arg_y = Fin 0, arg_svg = Element ''svg'' [] [],
       arg_size = None, arg_fill = None, arg_stroke = None, arg_strokeWidth = None\<rparr>
      (Element ''path'' [(''d'', ''M0 0''), (''fill'', ''none'')] []) ''M0 0'') = None
   \<and> path_strokeWidth (path_node
      \<lparr>arg_x = Fin 0, arg_y = Fin 0, arg_svg = Element ''svg'' [] [],
       arg_size = None, arg_fill = None, arg_stroke = None, arg_strokeWidth = None\<rparr>
      (Element ''path'' [(''d'', ''M0 0''), (''fill'', ''none'')] []) ''M0 0'') = None"
proof -
  let ?blue = "\<lparr>arg_x = Fin 0, arg_y = Fin 0, arg_svg = Element ''svg'' [] [],
       arg_size = None, arg_fill = Some ''blue'', arg_stroke = None, arg_strokeWidth = None\<rparr>"
  let ?plain = "\<lparr>arg_x = Fin 0, arg_y = Fin 0, arg_svg = Element ''svg'' [] [],
       arg_size = None, arg_fill = None, arg_stroke = None, arg_strokeWidth = None\<rparr>"
  let ?red = "Element ''path'' [(''d'', ''M0 0''), (''fill'', ''red'')] []"
  let ?none = "Element ''path'' [(''d'', ''M0 0''), (''fill'', ''none'')] []"
  have a: "path_fill (path_node ?blue ?red ''M0 0'') = Some ''blue''"
    using path_node_style [of ?blue ?red "''M0 0''"] by simp
  have b: "path_fill (path_node ?plain ?red ''M0 0'') = Some ''red''"
    using path_node_style [of ?plain ?red "''M0 0''"] by (simp add: getAttribute_def)
  have c: "path_fill (path_node ?plain ?none ''M0 0'') = None
      \<and> path_strokeWidth (path_node ?plain ?none ''M0 0'') = None"
    using path_node_style [of ?plain ?none "''M0 0''"] by (simp add: getAttribute_def)
  show ?thesis
    using a b c by blast
qed

end
